theory Spec2Isabelle
  imports Complex_Main
begin

section \<open>Python values shared by the three services\<close>

text \<open>
  A Python \<open>str\<close> is a sequence of Unicode code points and a \<open>bytes\<close> object a sequence
  of octets. The services convert between the two with the UTF-8 codec, so the two types
  are kept apart: code points are natural numbers, octets are HOL characters.
\<close>

type_synonym pystr = "nat list"
type_synonym bytes = "char list"

definition lit :: "string \<Rightarrow> pystr" where
  "lit s = map of_char s"

text \<open>
  The exceptions that the library calls of the three services can raise. \<open>HTTPError\<close>
  stands for every instance of \<open>httpx.HTTPError\<close>, tagged with its subclass, so that
  \<open>except httpx.HTTPError\<close> is a match on this constructor.
\<close>

datatype httpx_error = TransportError | TimeoutException | HTTPStatusError int

datatype exn =
    UnicodeDecodeError
  | UnicodeEncodeError
  | JSONDecodeError
  | TypeError
  | ValueError
  | OverflowError
  | AttributeError
  | AMQPError
  | HTTPError httpx_error
  | OtherException

subsection \<open>The UTF-8 codec\<close>

text \<open>
  \<open>bytes.decode()\<close> and \<open>str.encode("utf-8")\<close> belong to the Python runtime. The decoder
  is the one of CPython: \<open>utf8_next\<close> looks at the lead octet \<open>b\<close> and the octets \<open>bs\<close>
  after it and either decodes one code point, reporting how many of \<open>bs\<close> it consumed,
  or reports a malformed sequence together with how many of \<open>bs\<close> belong to the error
  range (the lead octet always does). With \<open>errors="strict"\<close>, the default, a malformed
  sequence raises \<open>UnicodeDecodeError\<close>; with \<open>errors="ignore"\<close> the error range is dropped
  and decoding resumes after it.
\<close>

datatype utf8_step = Decoded nat nat | Malformed nat

definition is_continuation :: "nat \<Rightarrow> bool" where
  "is_continuation b = (0x80 \<le> b \<and> b < 0xC0)"

definition utf8_next :: "nat \<Rightarrow> nat list \<Rightarrow> utf8_step" where
  "utf8_next b bs =
     (if b < 0x80 then Decoded b 0
      else if b < 0xC2 then Malformed 0
      else if b < 0xE0 then
        (case bs of
           [] \<Rightarrow> Malformed 0
         | b2 # _ \<Rightarrow>
             if is_continuation b2 then Decoded ((b - 0xC0) * 64 + (b2 - 0x80)) 1
             else Malformed 0)
      else if b < 0xF0 then
        (case bs of
           [] \<Rightarrow> Malformed 0
         | b2 # bs2 \<Rightarrow>
             if \<not> is_continuation b2 \<or> (if b2 < 0xA0 then b = 0xE0 else b = 0xED)
             then Malformed 0
             else (case bs2 of
                     [] \<Rightarrow> Malformed 1
                   | b3 # _ \<Rightarrow>
                       if is_continuation b3
                       then Decoded ((b - 0xE0) * 4096 + (b2 - 0x80) * 64 + (b3 - 0x80)) 2
                       else Malformed 1))
      else if b < 0xF5 then
        (case bs of
           [] \<Rightarrow> Malformed 0
         | b2 # bs2 \<Rightarrow>
             if \<not> is_continuation b2 \<or> (if b2 < 0x90 then b = 0xF0 else b = 0xF4)
             then Malformed 0
             else (case bs2 of
                     [] \<Rightarrow> Malformed 1
                   | b3 # bs3 \<Rightarrow>
                       if \<not> is_continuation b3 then Malformed 1
                       else (case bs3 of
                               [] \<Rightarrow> Malformed 2
                             | b4 # _ \<Rightarrow>
                                 if is_continuation b4
                                 then Decoded ((b - 0xF0) * 262144 + (b2 - 0x80) * 4096
                                               + (b3 - 0x80) * 64 + (b4 - 0x80)) 3
                                 else Malformed 2)))
      else Malformed 0)"

fun utf8_decode_strict :: "nat list \<Rightarrow> exn + pystr" where
  "utf8_decode_strict [] = Inr []"
| "utf8_decode_strict (b # bs) =
     (case utf8_next b bs of
        Malformed n \<Rightarrow> Inl UnicodeDecodeError
      | Decoded c n \<Rightarrow>
          (case utf8_decode_strict (drop n bs) of
             Inl e \<Rightarrow> Inl e
           | Inr s \<Rightarrow> Inr (c # s)))"

fun utf8_decode_ignore :: "nat list \<Rightarrow> pystr" where
  "utf8_decode_ignore [] = []"
| "utf8_decode_ignore (b # bs) =
     (case utf8_next b bs of
        Malformed n \<Rightarrow> utf8_decode_ignore (drop n bs)
      | Decoded c n \<Rightarrow> c # utf8_decode_ignore (drop n bs))"

definition decode :: "bytes \<Rightarrow> exn + pystr" where
  "decode b = utf8_decode_strict (map of_char b)"

definition decode_ignore :: "bytes \<Rightarrow> pystr" where
  "decode_ignore b = utf8_decode_ignore (map of_char b)"

text \<open>
  \<open>str.encode("utf-8")\<close>: surrogate code points cannot be encoded. A Python \<open>str\<close> holds
  no code point above \<open>0x10FFFF\<close>; the model reports such a number as the same error.
\<close>

definition utf8_encode_cp :: "nat \<Rightarrow> exn + nat list" where
  "utf8_encode_cp c =
     (if c < 0x80 then Inr [c]
      else if c < 0x800 then Inr [0xC0 + c div 64, 0x80 + c mod 64]
      else if c < 0x10000 then
        (if 0xD800 \<le> c \<and> c < 0xE000 then Inl UnicodeEncodeError
         else Inr [0xE0 + c div 4096, 0x80 + (c div 64) mod 64, 0x80 + c mod 64])
      else if c < 0x110000 then
        Inr [0xF0 + c div 262144, 0x80 + (c div 4096) mod 64,
             0x80 + (c div 64) mod 64, 0x80 + c mod 64]
      else Inl UnicodeEncodeError)"

fun encode :: "pystr \<Rightarrow> exn + bytes" where
  "encode [] = Inr []"
| "encode (c # s) =
     (case utf8_encode_cp c of
        Inl e \<Rightarrow> Inl e
      | Inr os \<Rightarrow>
          (case encode s of
             Inl e \<Rightarrow> Inl e
           | Inr b \<Rightarrow> Inr (map char_of os @ b)))"

subsection \<open>\<open>str()\<close> of the scalar values\<close>

fun digits :: "nat \<Rightarrow> pystr" where
  "digits n = (if n < 10 then [48 + n] else digits (n div 10) @ [48 + n mod 10])"

declare digits.simps [simp del]

definition str_int :: "int \<Rightarrow> pystr" where
  "str_int i = (if i < 0 then 45 # digits (nat (- i)) else digits (nat i))"

text \<open>
  The values a message header can carry. \<open>isinstance(x, (bytes, bytearray))\<close> holds of
  the first two constructors exactly; \<open>str()\<close> is applied to the others only.
\<close>

datatype scalar = SStr pystr | SInt int | SBool bool | SNone

datatype pyval = Bytes bytes | ByteArray bytes | Other scalar

fun py_str :: "scalar \<Rightarrow> pystr" where
  "py_str (SStr s) = s"
| "py_str (SInt i) = str_int i"
| "py_str (SBool b) = (if b then lit ''True'' else lit ''False'')"
| "py_str SNone = lit ''None''"

subsection \<open>Dictionaries\<close>

text \<open>
  A \<open>dict\<close> is an association list in insertion order with distinct keys.
  \<open>d[k] = v\<close> replaces the value of a key that is present, in place, and appends a new key.
\<close>

type_synonym ('k, 'v) dict = "('k \<times> 'v) list"

fun dict_set :: "('k, 'v) dict \<Rightarrow> 'k \<Rightarrow> 'v \<Rightarrow> ('k, 'v) dict" where
  "dict_set [] k v = [(k, v)]"
| "dict_set ((k', v') # d) k v =
     (if k' = k then (k, v) # d else (k', v') # dict_set d k v)"

definition dict_get :: "('k, 'v) dict \<Rightarrow> 'k \<Rightarrow> 'v \<Rightarrow> 'v" where
  "dict_get d k dflt = (case map_of d k of None \<Rightarrow> dflt | Some v \<Rightarrow> v)"

section \<open>Worker: header normalisation\<close>

text \<open>
  \<open>_normalize_headers\<close> of \<open>worker/app/main.py\<close>. The argument is \<open>None\<close> or a dictionary;
  \<open>not headers\<close> holds of \<open>None\<close> and of the empty dictionary. A key that is byte-like is
  decoded with the strict codec, a value that is byte-like with \<open>errors="ignore"\<close>.
\<close>

fun header_key :: "pyval \<Rightarrow> exn + pystr" where
  "header_key (Bytes b) = decode b"
| "header_key (ByteArray b) = decode b"
| "header_key (Other k) = Inr (py_str k)"

fun header_value :: "pyval \<Rightarrow> pystr" where
  "header_value (Bytes b) = decode_ignore b"
| "header_value (ByteArray b) = decode_ignore b"
| "header_value (Other v) = py_str v"

fun normalize_items ::
  "(pyval \<times> pyval) list \<Rightarrow> (pystr, pystr) dict \<Rightarrow> exn + (pystr, pystr) dict" where
  "normalize_items [] normalized = Inr normalized"
| "normalize_items ((k, v) # items) normalized =
     (case header_key k of
        Inl e \<Rightarrow> Inl e
      | Inr key \<Rightarrow> normalize_items items (dict_set normalized key (header_value v)))"

definition normalize_headers ::
  "(pyval, pyval) dict option \<Rightarrow> exn + (pystr, pystr) dict" where
  "normalize_headers headers =
     (case headers of
        None \<Rightarrow> Inr []
      | Some hs \<Rightarrow> if hs = [] then Inr [] else normalize_items hs [])"


section \<open>JSON values and HTTP responses\<close>

text \<open>
  The value that \<open>json.loads\<close> and \<open>response.json()\<close> return. A Python \<open>float\<close> is a
  binary floating-point number: the finite ones are \<open>m * 2 ^ e\<close> for integers \<open>m\<close>
  and \<open>e\<close>, and the JSON decoder also accepts \<open>Infinity\<close>, \<open>-Infinity\<close> and \<open>NaN\<close>.
\<close>

datatype pyfloat = Finite int int | Infinite bool | NaN

datatype json =
    JNull
  | JBool bool
  | JInt int
  | JFloat pyfloat
  | JStr pystr
  | JArr "json list"
  | JObj "(pystr \<times> json) list"

text \<open>
  \<open>x.get(key, default)\<close> exists on dictionaries only, \<open>len(x)\<close> on strings, lists and
  dictionaries only.
\<close>

fun py_get :: "json \<Rightarrow> pystr \<Rightarrow> json \<Rightarrow> exn + json" where
  "py_get (JObj d) k dflt = Inr (dict_get d k dflt)"
| "py_get _ k dflt = Inl AttributeError"

fun py_len :: "json \<Rightarrow> exn + nat" where
  "py_len (JStr s) = Inr (length s)"
| "py_len (JArr xs) = Inr (length xs)"
| "py_len (JObj d) = Inr (length d)"
| "py_len _ = Inl TypeError"

text \<open>
  An \<open>httpx\<close> response: its status code and what \<open>response.json()\<close> gives, \<open>None\<close> when
  the body does not decode (a \<open>JSONDecodeError\<close>, which is not an \<open>httpx.HTTPError\<close>).
  \<open>raise_for_status\<close> raises \<open>HTTPStatusError\<close> unless the status is a 2xx one.
\<close>

record response =
  status_code :: int
  json_of :: "json option"

definition is_success :: "int \<Rightarrow> bool" where
  "is_success status = (200 \<le> status \<and> status \<le> 299)"

definition raise_for_status :: "response \<Rightarrow> exn + response" where
  "raise_for_status resp =
     (if is_success (status_code resp) then Inr resp
      else Inl (HTTPError (HTTPStatusError (status_code resp))))"

definition response_json :: "response \<Rightarrow> exn + json" where
  "response_json resp = (case json_of resp of None \<Rightarrow> Inl JSONDecodeError | Some j \<Rightarrow> Inr j)"

text \<open>
  The three statements every caller of a downstream service runs inside its \<open>try\<close>:
  \<open>client.post\<close>, whose outcome \<open>outcome\<close> is an exception or a response,
  \<open>raise_for_status\<close> and \<open>json()\<close>.
\<close>

definition post_json :: "exn + response \<Rightarrow> exn + json" where
  "post_json outcome =
     (case outcome of
        Inl e \<Rightarrow> Inl e
      | Inr resp \<Rightarrow>
          (case raise_for_status resp of
             Inl e \<Rightarrow> Inl e
           | Inr r \<Rightarrow> response_json r))"

text \<open>\<open>os.getenv(name, default)\<close> over the process environment.\<close>

definition getenv :: "(string \<Rightarrow> pystr option) \<Rightarrow> string \<Rightarrow> string \<Rightarrow> pystr" where
  "getenv environ name dflt = (case environ name of None \<Rightarrow> lit dflt | Some v \<Rightarrow> v)"

section \<open>The tracing facility\<close>

text \<open>
  The tracing library is an external collaborator. A context is the span context of the
  active span, or \<open>None\<close> when there is none. The library's \<open>inject\<close>, its \<open>extract\<close>
  (the field \<open>extract_context\<close>) and its \<open>start_as_current_span\<close> (the field
  \<open>start_span\<close>, which gives the span context of the new span) are parameters of the
  model. Span attributes are not modelled.
\<close>

record span_context =
  trace_id :: nat
  span_id :: nat
  sampled :: bool

type_synonym trace_context = "span_context option"

datatype span_kind = INTERNAL | PRODUCER | CONSUMER

record tracing =
  inject :: "trace_context \<Rightarrow> (pystr, pystr) dict \<Rightarrow> (pystr, pystr) dict"
  extract_context :: "(pystr, pystr) dict \<Rightarrow> trace_context"
  start_span :: "trace_context \<Rightarrow> string \<Rightarrow> span_kind \<Rightarrow> span_context"

section \<open>Worker: the message callback\<close>

text \<open>
  The environment of \<open>on_message\<close>: the closure variables of \<open>main\<close>, \<open>json.loads\<close>, the
  outcome of the analyze call, and whether the channel raises on \<open>basic_ack\<close> or
  \<open>basic_nack\<close>.
\<close>

record worker_env =
  w_environ :: "string \<Rightarrow> pystr option"
  w_tracing :: tracing
  w_loads :: "pystr \<Rightarrow> json option"
  w_post :: "pystr \<Rightarrow> pystr \<Rightarrow> json \<Rightarrow> exn + response"
  w_ack_raises :: bool
  w_nack_raises :: bool

datatype channel_call = BasicAck nat | BasicNack nat bool

record delivery =
  raised :: "exn option"
  consumer_span :: "span_context option"
  channel_calls :: "channel_call list"

text \<open>The statements of the \<open>try\<close> block before \<open>basic_ack\<close>.\<close>

definition process_message :: "worker_env \<Rightarrow> bytes \<Rightarrow> exn + json" where
  "process_message W body =
     (case decode body of
        Inl e \<Rightarrow> Inl e
      | Inr text \<Rightarrow>
     (case w_loads W text of
        None \<Rightarrow> Inl JSONDecodeError
      | Some payload \<Rightarrow>
     (case py_get payload (lit ''message'') (JStr []) of
        Inl e \<Rightarrow> Inl e
      | Inr message \<Rightarrow>
     (case py_len message of
        Inl e \<Rightarrow> Inl e
      | Inr n \<Rightarrow>
          post_json (w_post W (getenv (w_environ W) ''DOTNET_SERVICE_URL'' ''http://localhost:8080'')
                       (lit ''/analyze'') (JObj [(lit ''text'', message)]))))))"

text \<open>
  \<open>except Exception\<close>: \<open>basic_nack\<close> with \<open>requeue=False\<close>, after whatever the channel
  was already asked to do.
\<close>

definition reject :: "worker_env \<Rightarrow> nat \<Rightarrow> span_context \<Rightarrow> channel_call list \<Rightarrow> delivery" where
  "reject W tag sp calls =
     \<lparr>raised = (if w_nack_raises W then Some AMQPError else None),
      consumer_span = Some sp,
      channel_calls = calls @ [BasicNack tag False]\<rparr>"

text \<open>
  \<open>on_message\<close>: the headers are normalised and the consumer span is started before
  the \<open>try\<close> block; \<open>basic_ack\<close> is its last statement, so an exception of the
  acknowledgement is handled like any other. What the callback raises, the span it
  started and the calls it made on the channel are recorded. Interrupts that arrive
  from outside while the callback runs are not modelled.
\<close>

definition on_message ::
  "worker_env \<Rightarrow> nat \<Rightarrow> (pyval, pyval) dict option \<Rightarrow> bytes \<Rightarrow> delivery" where
  "on_message W tag headers body =
     (case normalize_headers headers of
        Inl e \<Rightarrow> \<lparr>raised = Some e, consumer_span = None, channel_calls = []\<rparr>
      | Inr hs \<Rightarrow>
          (let ctx = extract_context (w_tracing W) hs;
               sp = start_span (w_tracing W) ctx ''rabbitmq.process'' CONSUMER
           in case process_message W body of
                Inl e \<Rightarrow> reject W tag sp []
              | Inr analysis \<Rightarrow>
                  if w_ack_raises W then reject W tag sp [BasicAck tag]
                  else \<lparr>raised = None, consumer_span = Some sp,
                        channel_calls = [BasicAck tag]\<rparr>))"


section \<open>Gateway: the queue publisher\<close>

text \<open>
  What the gateway asks of the outside world, in the order it asks: the calls on the
  blocking queue client and the POST to the classification service.
\<close>

record properties =
  content_type :: pystr
  delivery_mode :: nat
  headers :: "(pystr, pystr) dict"

datatype effect =
    Connect pystr
  | OpenChannel
  | QueueDeclare pystr bool
  | BasicPublish pystr pystr bytes properties
  | ChannelClose
  | ConnectionClose
  | HttpPost pystr pystr json

text \<open>
  The environment of the gateway: the process environment, which calls on the queue
  client raise (a connection or channel error), \<open>json.dumps\<close>, the tracing facility and
  the outcome of the classify call.
\<close>

record gateway_env =
  g_environ :: "string \<Rightarrow> pystr option"
  g_tracing :: tracing
  g_broker_raises :: "effect \<Rightarrow> bool"
  g_dumps :: "json \<Rightarrow> pystr"
  g_post :: "pystr \<Rightarrow> pystr \<Rightarrow> json \<Rightarrow> exn + response"

type_synonym 'a io = "(exn + 'a) \<times> effect list"

definition call_broker :: "gateway_env \<Rightarrow> effect \<Rightarrow> effect list \<Rightarrow> unit io" where
  "call_broker G op fx =
     (if g_broker_raises G op then Inl AMQPError else Inr (), fx @ [op])"

text \<open>
  The body of the \<open>try\<close> of \<open>_publish_to_rabbitmq_sync\<close>. \<open>headers or {}\<close> is spelled
  out, and the exchange is the empty string.
\<close>

definition publish_on_connection ::
  "gateway_env \<Rightarrow> pystr \<Rightarrow> json \<Rightarrow> (pystr, pystr) dict \<Rightarrow> effect list \<Rightarrow> unit io" where
  "publish_on_connection G queue_name payload hdrs fx =
     (case call_broker G OpenChannel fx of
        (Inl e, l1) \<Rightarrow> (Inl e, l1)
      | (Inr _, l1) \<Rightarrow>
     (case call_broker G (QueueDeclare queue_name True) l1 of
        (Inl e, l2) \<Rightarrow> (Inl e, l2)
      | (Inr _, l2) \<Rightarrow>
     (case encode (g_dumps G payload) of
        Inl e \<Rightarrow> (Inl e, l2)
      | Inr body \<Rightarrow>
          (let props = \<lparr>content_type = lit ''application/json'',
                        delivery_mode = 2,
                        headers = (if hdrs = [] then [] else hdrs)\<rparr>
           in case call_broker G (BasicPublish (lit []) queue_name body props) l2 of
                (Inl e, l3) \<Rightarrow> (Inl e, l3)
              | (Inr _, l3) \<Rightarrow> call_broker G ChannelClose l3))))"

text \<open>
  \<open>_publish_to_rabbitmq_sync\<close>: the connection is opened outside the \<open>try\<close>; the
  \<open>finally\<close> closes it on every path, and an exception of the close replaces the one
  in flight.
\<close>

definition publish_to_rabbitmq_sync ::
  "gateway_env \<Rightarrow> pystr \<Rightarrow> json \<Rightarrow> (pystr, pystr) dict \<Rightarrow> effect list \<Rightarrow> unit io" where
  "publish_to_rabbitmq_sync G queue_name payload hdrs fx =
     (case call_broker G (Connect (getenv (g_environ G) ''RABBITMQ_HOST'' ''localhost'')) fx of
        (Inl e, l1) \<Rightarrow> (Inl e, l1)
      | (Inr _, l1) \<Rightarrow>
          (case publish_on_connection G queue_name payload hdrs l1 of
             (r, l2) \<Rightarrow>
               (case call_broker G ConnectionClose l2 of
                  (Inl e, l3) \<Rightarrow> (Inl e, l3)
                | (Inr _, l3) \<Rightarrow> (r, l3))))"

text \<open>
  \<open>publish_to_rabbitmq\<close>: the carrier starts empty, \<open>inject\<close> fills it from the context
  that is current, here \<open>ctx\<close>, and the coroutine awaits the thread that runs the
  synchronous publish, so it returns, or raises, when that has finished.
\<close>

definition publish_to_rabbitmq ::
  "gateway_env \<Rightarrow> trace_context \<Rightarrow> pystr \<Rightarrow> json \<Rightarrow> effect list \<Rightarrow> unit io" where
  "publish_to_rabbitmq G ctx queue_name payload fx =
     (let carrier = inject (g_tracing G) ctx []
      in publish_to_rabbitmq_sync G queue_name payload carrier fx)"

section \<open>Gateway: the chat endpoint\<close>

text \<open>
  What leaves a request handler other than a return value: an \<open>HTTPException\<close>, which the
  web framework answers with that status and \<open>{"detail": ...}\<close>, or any other exception,
  which the handler did not catch.
\<close>

datatype failure = HTTPException int pystr | Unhandled exn

text \<open>\<open>except httpx.HTTPError\<close> around the downstream call, with the detail of the 502.\<close>

definition downstream :: "pystr \<Rightarrow> exn + json \<Rightarrow> failure + json" where
  "downstream detail r =
     (case r of
        Inl (HTTPError h) \<Rightarrow> Inl (HTTPException 502 detail)
      | Inl e \<Rightarrow> Inl (Unhandled e)
      | Inr j \<Rightarrow> Inr j)"

text \<open>
  \<open>chat_endpoint\<close>, one block of the handler at a time. The first \<open>with\<close> block starts
  the producer span and publishes inside it; nothing catches what the publish raises.
\<close>

definition chat_publish :: "gateway_env \<Rightarrow> trace_context \<Rightarrow> pystr \<Rightarrow> unit io" where
  "chat_publish G ctx message =
     (let rabbitmq_queue = getenv (g_environ G) ''RABBITMQ_QUEUE'' ''chat-jobs'';
          producer = start_span (g_tracing G) ctx ''publish_to_rabbitmq'' PRODUCER
      in publish_to_rabbitmq G (Some producer) rabbitmq_queue
           (JObj [(lit ''message'', JStr message)]) [])"

text \<open>
  The second \<open>with\<close> block and the \<open>return\<close>; \<open>fx\<close> is what has happened so far.
  \<open>classify_call\<close> is the outcome of \<open>client.post("/classify", json={"text": message})\<close>.
\<close>

definition nlp_url :: "gateway_env \<Rightarrow> pystr" where
  "nlp_url G = getenv (g_environ G) ''NLP_SERVICE_URL'' ''http://localhost:8001''"

definition classify_call :: "gateway_env \<Rightarrow> pystr \<Rightarrow> exn + response" where
  "classify_call G message =
     g_post G (nlp_url G) (lit ''/classify'') (JObj [(lit ''text'', JStr message)])"

definition chat_call_nlp ::
  "gateway_env \<Rightarrow> pystr \<Rightarrow> effect list \<Rightarrow> (failure + json) \<times> effect list" where
  "chat_call_nlp G message fx =
     (let fx' = fx @ [HttpPost (nlp_url G) (lit ''/classify'') (JObj [(lit ''text'', JStr message)])]
      in case downstream (lit ''NLP service unavailable'') (post_json (classify_call G message)) of
           Inl f \<Rightarrow> (Inl f, fx')
         | Inr classification \<Rightarrow>
             (Inr (JObj [(lit ''ok'', JBool True),
                         (lit ''classification'', classification)]), fx'))"

definition chat_endpoint ::
  "gateway_env \<Rightarrow> trace_context \<Rightarrow> pystr \<Rightarrow> (failure + json) \<times> effect list" where
  "chat_endpoint G ctx message =
     (case chat_publish G ctx message of
        (Inl e, fx) \<Rightarrow> (Inl (Unhandled e), fx)
      | (Inr _, fx) \<Rightarrow> chat_call_nlp G message fx)"

text \<open>
  The answer of the web framework to what a handler returned or raised. For a returned
  value, \<open>Reply 200 j\<close> carries the value \<open>j\<close> that the handler handed over; how the
  framework writes it on the wire is not modelled.
\<close>

datatype reply = Reply int json | ServerError exn

fun reply_of :: "failure + json \<Rightarrow> reply" where
  "reply_of (Inr j) = Reply 200 j"
| "reply_of (Inl (HTTPException status detail)) = Reply status (JObj [(lit ''detail'', JStr detail)])"
| "reply_of (Inl (Unhandled e)) = ServerError e"

text \<open>Whether an effect is the call of the classification service.\<close>

fun is_post :: "effect \<Rightarrow> bool" where
  "is_post (HttpPost u p j) = True"
| "is_post _ = False"

section \<open>Gateway: the chunk stream\<close>

text \<open>
  \<open>stream_generator\<close> of \<open>chat_stream\<close>, as the events of one run to the end: the log
  record, the chunk handed to the response, the sleep.
\<close>

datatype stream_event = LogChunk int | Yield bytes | Sleep rat

definition py_range :: "nat \<Rightarrow> int list" where
  "py_range n = map int [0..<n]"

fun stream_loop :: "int list \<Rightarrow> stream_event list \<times> exn option" where
  "stream_loop [] = ([], None)"
| "stream_loop (index # rest) =
     (let chunk = lit ''chunk-'' @ str_int index @ lit ''\<newline>''
      in case encode chunk of
           Inl e \<Rightarrow> ([LogChunk index], Some e)
         | Inr b \<Rightarrow>
             (case stream_loop rest of
                (events, r) \<Rightarrow> ([LogChunk index, Yield b, Sleep (1 / 2)] @ events, r)))"

definition stream_generator :: "stream_event list \<times> exn option" where
  "stream_generator = stream_loop (py_range 5)"

section \<open>Classification service\<close>

text \<open>
  \<open>int(x)\<close> of a decoded JSON value. The parser of \<open>int(str)\<close> belongs to the Python
  runtime and is the parameter \<open>parse\<close>; \<open>None\<close> is its \<open>ValueError\<close>. A float is
  truncated towards zero.
\<close>

definition float_to_int :: "pyfloat \<Rightarrow> exn + int" where
  "float_to_int f =
     (case f of
        Finite m e \<Rightarrow>
          Inr (if 0 \<le> e then m * 2 ^ nat e
               else if 0 \<le> m then m div 2 ^ nat (- e)
               else - ((- m) div 2 ^ nat (- e)))
      | Infinite _ \<Rightarrow> Inl OverflowError
      | NaN \<Rightarrow> Inl ValueError)"

fun py_int :: "(pystr \<Rightarrow> int option) \<Rightarrow> json \<Rightarrow> exn + int" where
  "py_int parse (JInt i) = Inr i"
| "py_int parse (JBool b) = Inr (if b then 1 else 0)"
| "py_int parse (JFloat f) = float_to_int f"
| "py_int parse (JStr s) = (case parse s of None \<Rightarrow> Inl ValueError | Some i \<Rightarrow> Inr i)"
| "py_int parse _ = Inl TypeError"

record nlp_env =
  n_environ :: "string \<Rightarrow> pystr option"
  n_parse_int :: "pystr \<Rightarrow> int option"
  n_post :: "pystr \<Rightarrow> pystr \<Rightarrow> json \<Rightarrow> exn + response"

text \<open>The statements of \<open>classify_endpoint\<close> after the \<open>async with\<close> block.\<close>

definition classify :: "nlp_env \<Rightarrow> json \<Rightarrow> failure + json" where
  "classify N analysis =
     (case py_get analysis (lit ''length'') (JInt 0) of
        Inl e \<Rightarrow> Inl (Unhandled e)
      | Inr v \<Rightarrow>
          (case py_int (n_parse_int N) v of
             Inl e \<Rightarrow> Inl (Unhandled e)
           | Inr len \<Rightarrow>
               Inr (JObj [(lit ''classification'',
                            JStr (if len < 20 then lit ''short'' else lit ''long'')),
                          (lit ''analysis'', analysis)])))"

text \<open>\<open>analyze_call\<close> is the outcome of \<open>client.post("/analyze", json={"text": req.text})\<close>.\<close>

definition analyze_call :: "nlp_env \<Rightarrow> pystr \<Rightarrow> exn + response" where
  "analyze_call N text =
     n_post N (getenv (n_environ N) ''DOTNET_SERVICE_URL'' ''http://localhost:8080'')
       (lit ''/analyze'') (JObj [(lit ''text'', JStr text)])"

definition classify_endpoint :: "nlp_env \<Rightarrow> pystr \<Rightarrow> failure + json" where
  "classify_endpoint N text =
     (case downstream (lit ''Analyze service unavailable'') (post_json (analyze_call N text)) of
        Inl f \<Rightarrow> Inl f
      | Inr analysis \<Rightarrow> classify N analysis)"

section \<open>From the publisher to the consumer\<close>

text \<open>
  The broker and the queue client are external. What the consumer finds in
  \<open>properties.headers\<close> for a published header table: the same entries in the same
  order, every key and every value either as the \<open>str\<close> that was published or as a
  byte-like object holding its UTF-8 encoding; an empty table may arrive as \<open>None\<close>.
\<close>

fun represents :: "pystr \<Rightarrow> pyval \<Rightarrow> bool" where
  "represents s (Bytes b) = (decode b = Inr s)"
| "represents s (ByteArray b) = (decode b = Inr s)"
| "represents s (Other x) = (x = SStr s)"

definition amqp_delivers :: "(pystr, pystr) dict \<Rightarrow> (pyval, pyval) dict option \<Rightarrow> bool" where
  "amqp_delivers published delivered =
     (case delivered of
        None \<Rightarrow> published = []
      | Some hs \<Rightarrow>
          list_all2 (\<lambda>(k, v) (k', v'). represents k k' \<and> represents v v') published hs)"

section \<open>Sample environments\<close>

text \<open>
  Concrete values for the parameters of the model, on which the theorems below are run.
  \<open>sample_tracing\<close> writes the trace and span identifiers in decimal under the key
  \<open>traceparent\<close> and reads them back; a span started under a parent keeps the parent's
  trace identifier.
\<close>

definition digits_value :: "pystr \<Rightarrow> nat" where
  "digits_value ds = foldl (\<lambda>n d. 10 * n + (d - 48)) 0 ds"

definition sample_tracing :: tracing where
  "sample_tracing =
     \<lparr>inject = (\<lambda>ctx carrier.
         case ctx of
           None \<Rightarrow> carrier
         | Some c \<Rightarrow> dict_set carrier (lit ''traceparent'')
                      (str_int (int (trace_id c)) @ lit ''-'' @ str_int (int (span_id c)))),
      extract_context = (\<lambda>carrier.
         case map_of carrier (lit ''traceparent'') of
           None \<Rightarrow> None
         | Some v \<Rightarrow>
             (let t = takeWhile (\<lambda>d. d \<noteq> 45) v
              in Some \<lparr>trace_id = digits_value t,
                       span_id = digits_value (drop (Suc (length t)) v),
                       sampled = True\<rparr>)),
      start_span = (\<lambda>ctx name kind.
         case ctx of
           None \<Rightarrow> \<lparr>trace_id = 1, span_id = 1, sampled = True\<rparr>
         | Some p \<Rightarrow> p\<lparr>span_id := Suc (span_id p)\<rparr>)\<rparr>"

definition sample_gateway :: "(exn + response) \<Rightarrow> gateway_env" where
  "sample_gateway outcome =
     \<lparr>g_environ = (\<lambda>name. None),
      g_tracing = sample_tracing,
      g_broker_raises = (\<lambda>op. False),
      g_dumps = (\<lambda>j. lit ''{}''),
      g_post = (\<lambda>base path body. outcome)\<rparr>"

definition sample_worker :: worker_env where
  "sample_worker =
     \<lparr>w_environ = (\<lambda>name. None),
      w_tracing = sample_tracing,
      w_loads = (\<lambda>s. if s = lit ''{}'' then Some (JObj []) else None),
      w_post = (\<lambda>base path body. Inl (HTTPError TimeoutException)),
      w_ack_raises = False,
      w_nack_raises = False\<rparr>"

definition sample_nlp :: "(exn + response) \<Rightarrow> nlp_env" where
  "sample_nlp outcome =
     \<lparr>n_environ = (\<lambda>name. None),
      n_parse_int = (\<lambda>s. if s = lit ''19'' then Some 19 else None),
      n_post = (\<lambda>base path body. outcome)\<rparr>"

section \<open>Properties\<close>

subsection \<open>Strings and the codec\<close>

lemma lit_eq_iff [simp]: "lit a = lit b \<longleftrightarrow> a = b"
  by (simp add: lit_def inj_map_eq_map inj_def)

lemma lit_append: "lit (a @ b) = lit a @ lit b"
  by (simp add: lit_def)

lemma encode_ascii: "\<forall>c \<in> set s. (of_char c :: nat) < 128 \<Longrightarrow> encode (lit s) = Inr s"
  by (induction s) (simp_all add: lit_def utf8_encode_cp_def)

lemma str_int_digit:
  "str_int 0 = lit ''0''" "str_int 1 = lit ''1''" "str_int 2 = lit ''2''"
  "str_int 3 = lit ''3''" "str_int 4 = lit ''4''"
  by (simp_all add: str_int_def digits.simps lit_def)

lemma strict_then_ignore:
  "utf8_decode_strict bs = Inr s \<Longrightarrow> utf8_decode_ignore bs = s"
proof (induction bs arbitrary: s rule: utf8_decode_strict.induct)
  case 1
  then show ?case by simp
next
  case (2 b bs)
  then show ?case
    by (auto split: utf8_step.splits sum.splits)
qed

subsection \<open>Header normalisation\<close>

lemma normalize_headers_absent:
  "normalize_headers None = Inr []" "normalize_headers (Some []) = Inr []"
  by (simp_all add: normalize_headers_def)

lemma represents_key: "represents k k' \<Longrightarrow> header_key k' = Inr k"
  by (cases k') simp_all

lemma represents_value: "represents v v' \<Longrightarrow> header_value v' = v"
  by (cases v') (simp_all add: decode_def decode_ignore_def strict_then_ignore)

lemma normalize_items_represented:
  assumes "list_all2 (\<lambda>(k, v) (k', v'). represents k k' \<and> represents v v') published hs"
  shows "normalize_items hs acc = Inr (foldl (\<lambda>d (k, v). dict_set d k v) acc published)"
  using assms
proof (induction published hs arbitrary: acc rule: list_all2_induct)
  case Nil
  then show ?case by simp
next
  case (Cons x xs y ys)
  then show ?case
    by (cases x; cases y) (auto simp add: represents_key represents_value)
qed

lemma dict_set_fresh: "k \<notin> fst ` set d \<Longrightarrow> dict_set d k v = d @ [(k, v)]"
  by (induction d) auto

lemma foldl_dict_set_distinct:
  "distinct (map fst kvs) \<Longrightarrow> fst ` set acc \<inter> fst ` set kvs = {} \<Longrightarrow>
   foldl (\<lambda>d (k, v). dict_set d k v) acc kvs = acc @ kvs"
proof (induction kvs arbitrary: acc)
  case Nil
  then show ?case by simp
next
  case (Cons kv kvs)
  obtain k v where kv: "kv = (k, v)" by (cases kv)
  from Cons.prems kv have fresh: "k \<notin> fst ` set acc" by auto
  from Cons.prems kv have "distinct (map fst kvs)"
    and "fst ` set (acc @ [(k, v)]) \<inter> fst ` set kvs = {}" by auto
  then have "foldl (\<lambda>d (k, v). dict_set d k v) (acc @ [(k, v)]) kvs = (acc @ [(k, v)]) @ kvs"
    by (rule Cons.IH)
  with fresh kv show ?case by (simp add: dict_set_fresh)
qed

text \<open>
  Normalisation undoes the delivery: whatever mix of strings and UTF-8 byte strings the
  published table arrives as, the worker gets the published table back.
\<close>

lemma normalize_headers_delivered:
  assumes "amqp_delivers published delivered" and "distinct (map fst published)"
  shows "normalize_headers delivered = Inr published"
proof (cases delivered)
  case None
  with assms show ?thesis by (simp add: amqp_delivers_def normalize_headers_def)
next
  case (Some hs)
  with assms have rep:
    "list_all2 (\<lambda>(k, v) (k', v'). represents k k' \<and> represents v v') published hs"
    by (simp add: amqp_delivers_def)
  then have "normalize_items hs [] = Inr (foldl (\<lambda>d (k, v). dict_set d k v) [] published)"
    by (rule normalize_items_represented)
  also have "foldl (\<lambda>d (k, v). dict_set d k v) [] published = published"
    using assms(2) foldl_dict_set_distinct [of published "[]"] by simp
  finally have "normalize_items hs [] = Inr published" .
  moreover have "hs = [] \<Longrightarrow> published = []" using rep by simp
  ultimately show ?thesis using Some by (auto simp add: normalize_headers_def)
qed

text \<open>
  The only way normalisation fails is a byte-like key that the strict codec rejects.
\<close>

lemma normalize_items_total:
  "(\<forall>(k, v) \<in> set hs. \<exists>key. header_key k = Inr key) \<Longrightarrow> \<exists>d. normalize_items hs acc = Inr d"
  by (induction hs arbitrary: acc) auto

lemma normalize_items_raises:
  "normalize_items hs acc = Inl e \<Longrightarrow> \<exists>(k, v) \<in> set hs. header_key k = Inl e"
  by (induction hs arbitrary: acc) (auto split: sum.splits)

text \<open>
  C5 (header-normalisation totality). The claim is that \<open>_normalize_headers\<close> raises on
  no header mapping, byte-like keys included. A byte-like key is decoded with the strict
  codec, unlike a byte-like value: on the one-entry mapping \<open>{b"\xff": "x"}\<close> the
  function raises \<open>UnicodeDecodeError\<close> and returns no mapping.
\<close>

theorem normalize_headers_malformed_key:
  "normalize_headers (Some [(Bytes [CHR 0xFF], Other (SStr (lit ''x'')))]) = Inl UnicodeDecodeError"
  by (simp add: normalize_headers_def decode_def utf8_next_def)

subsection \<open>The message callback\<close>

text \<open>
  When the headers normalise and \<open>basic_ack\<close> does not raise, the callback asks the
  channel for exactly one thing: the acknowledgement or the rejection without requeue.
\<close>

lemma on_message_exclusive:
  assumes "normalize_headers h = Inr hs" and "\<not> w_ack_raises W"
  shows "channel_calls (on_message W tag h body) = [BasicAck tag]
       \<or> channel_calls (on_message W tag h body) = [BasicNack tag False]"
  using assms by (simp add: on_message_def reject_def Let_def split: sum.splits)

lemma on_message_headers_raise:
  "normalize_headers h = Inl e \<Longrightarrow>
   on_message W tag h body = \<lparr>raised = Some e, consumer_span = None, channel_calls = []\<rparr>"
  by (simp add: on_message_def)

text \<open>
  C2 (consumer ack/reject exclusivity). The claim is that every delivered message gets
  exactly one of \<open>basic_ack\<close> and \<open>basic_nack\<close>. The headers are normalised before the
  \<open>try\<close> block is entered: for a message whose header mapping is \<open>{b"\xff": "x"}\<close>,
  whatever its body and whatever the environment, \<open>on_message\<close> raises
  \<open>UnicodeDecodeError\<close> and calls neither.
\<close>

theorem on_message_malformed_key:
  "on_message W tag (Some [(Bytes [CHR 0xFF], Other (SStr (lit ''x'')))]) body =
     \<lparr>raised = Some UnicodeDecodeError, consumer_span = None, channel_calls = []\<rparr>"
  by (simp add: on_message_def normalize_headers_def decode_def utf8_next_def)

subsection \<open>The chunk stream\<close>

lemma py_range_5: "py_range 5 = [0, 1, 2, 3, 4]"
  by (simp add: py_range_def upt_rec)

text \<open>
  C8 (stream behaviour). One run of the generator logs and yields the five chunks
  \<open>chunk-0\n\<close> to \<open>chunk-4\n\<close> in this order, sleeps half a time unit after each of
  them, hence between any two consecutive ones, and ends after the fifth without an
  exception.
\<close>

theorem stream_five_chunks:
  "stream_generator =
     ([LogChunk 0, Yield ''chunk-0\<newline>'', Sleep (1 / 2),
       LogChunk 1, Yield ''chunk-1\<newline>'', Sleep (1 / 2),
       LogChunk 2, Yield ''chunk-2\<newline>'', Sleep (1 / 2),
       LogChunk 3, Yield ''chunk-3\<newline>'', Sleep (1 / 2),
       LogChunk 4, Yield ''chunk-4\<newline>'', Sleep (1 / 2)], None)"
  by (simp add: stream_generator_def py_range_5 str_int_digit lit_append [symmetric] encode_ascii)

subsection \<open>The publisher\<close>

lemmas publish_defs = publish_to_rabbitmq_def publish_to_rabbitmq_sync_def
  publish_on_connection_def call_broker_def


lemma publish_sync_message:
  assumes "publish_to_rabbitmq_sync G q payload hdrs [] = (r, fx)"
      and "BasicPublish ex rk body props \<in> set fx"
  shows "ex = lit [] \<and> rk = q \<and> encode (g_dumps G payload) = Inr body
       \<and> props = \<lparr>content_type = lit ''application/json'', delivery_mode = 2, headers = hdrs\<rparr>
       \<and> (\<exists>rest. fx = [Connect (getenv (g_environ G) ''RABBITMQ_HOST'' ''localhost''),
                          OpenChannel, QueueDeclare q True,
                          BasicPublish ex rk body props] @ rest)"
  using assms
  by (auto simp add: publish_defs Let_def split: if_splits sum.splits prod.splits)


lemma publish_sync_no_post:
  assumes "publish_to_rabbitmq_sync G q payload hdrs [] = (r, fx)"
  shows "\<forall>op \<in> set fx. \<not> is_post op"
  using assms
  by (auto simp add: publish_defs Let_def split: if_splits sum.splits prod.splits)


lemma sample_publish:
  "publish_to_rabbitmq (sample_gateway outcome) ctx q payload [] =
     (Inr (), [Connect (lit ''localhost''), OpenChannel, QueueDeclare q True,
               BasicPublish (lit []) q ''{}''
                 \<lparr>content_type = lit ''application/json'', delivery_mode = 2,
                  headers = inject sample_tracing ctx []\<rparr>,
               ChannelClose, ConnectionClose])"
  by (simp add: publish_defs sample_gateway_def getenv_def encode_ascii Let_def)

lemma sample_inject:
  "inject sample_tracing (Some \<lparr>trace_id = 42, span_id = 7, sampled = True\<rparr>) []
     = [(lit ''traceparent'', lit ''42-7'')]"
  by (simp add: sample_tracing_def str_int_def digits.simps lit_def)





subsection \<open>From the publisher to the consumer span\<close>

text \<open>
  C1 (context round-trip). Let \<open>c\<close> be the span context that is current when
  \<open>publish_to_rabbitmq\<close> is called, and let the call publish a message. Assume of the
  collaborators: the broker delivers the published header table (as strings or as
  their UTF-8 bytes), the carrier that \<open>inject\<close> fills is a dictionary, \<open>extract\<close> of
  that carrier is a context with the trace identifier of \<open>c\<close>, and a span started under
  a parent has the parent's trace identifier. Then the consumer span that \<open>on_message\<close>
  starts for the delivery has the trace identifier of \<open>c\<close>.
\<close>

theorem trace_context_round_trip:
  assumes "publish_to_rabbitmq G (Some c) q payload [] = (r, fx)"
      and "BasicPublish ex rk body props \<in> set fx"
      and "amqp_delivers (headers props) delivered"
      and "distinct (map fst (inject (g_tracing G) (Some c) []))"
      and "extract_context (w_tracing W) (inject (g_tracing G) (Some c) []) = Some p"
      and "trace_id p = trace_id c"
      and "trace_id (start_span (w_tracing W) (Some p) ''rabbitmq.process'' CONSUMER) = trace_id p"
  shows "map_option trace_id (consumer_span (on_message W tag delivered body)) = Some (trace_id c)"
proof -
  have "headers props = inject (g_tracing G) (Some c) []"
    using assms(1,2)
      publish_sync_message [of G q payload "inject (g_tracing G) (Some c) []" r fx ex rk body props]
    by (simp add: publish_to_rabbitmq_def)
  with assms(3,4) have "normalize_headers delivered = Inr (inject (g_tracing G) (Some c) [])"
    by (simp add: normalize_headers_delivered)
  with assms(5,6,7) show ?thesis
    by (simp add: on_message_def reject_def Let_def split: sum.splits)
qed

theorem trace_context_round_trip_witness:
  "map_option trace_id
     (consumer_span (on_message sample_worker 1
        (Some [(Other (SStr (lit ''traceparent'')), Bytes ''42-7'')]) ''{}''))
   = Some 42"
proof -
  let ?G = "sample_gateway (Inl (HTTPError TimeoutException))"
  let ?c = "\<lparr>trace_id = 42, span_id = 7, sampled = True\<rparr>"
  let ?p = "JObj [(lit ''message'', JStr (lit ''hi''))]"
  let ?props = "\<lparr>content_type = lit ''application/json'', delivery_mode = 2,
                 headers = [(lit ''traceparent'', lit ''42-7'')]\<rparr>"
  let ?fx = "[Connect (lit ''localhost''), OpenChannel, QueueDeclare (lit ''chat-jobs'') True,
              BasicPublish (lit []) (lit ''chat-jobs'') ''{}'' ?props,
              ChannelClose, ConnectionClose]"
  have tg: "g_tracing ?G = sample_tracing" by (simp add: sample_gateway_def)
  have tw: "w_tracing sample_worker = sample_tracing" by (simp add: sample_worker_def)
  have h1: "publish_to_rabbitmq ?G (Some ?c) (lit ''chat-jobs'') ?p [] = (Inr (), ?fx)"
    by (simp add: sample_publish sample_inject)
  have h2: "BasicPublish (lit []) (lit ''chat-jobs'') ''{}'' ?props \<in> set ?fx"
    by simp
  have h3: "amqp_delivers (headers ?props) (Some [(Other (SStr (lit ''traceparent'')), Bytes ''42-7'')])"
    by (simp add: amqp_delivers_def decode_def utf8_next_def lit_def)
  have h4: "distinct (map fst (inject (g_tracing ?G) (Some ?c) []))"
    by (simp add: tg sample_inject)
  have h5: "extract_context (w_tracing sample_worker) (inject (g_tracing ?G) (Some ?c) []) = Some ?c"
    by (simp add: tg tw sample_inject) (simp add: sample_tracing_def lit_def digits_value_def)
  have h6: "trace_id ?c = trace_id ?c" by simp
  have h7: "trace_id (start_span (w_tracing sample_worker) (Some ?c) ''rabbitmq.process'' CONSUMER)
              = trace_id ?c"
    by (simp add: tw sample_tracing_def)
  from trace_context_round_trip [OF h1 h2 h3 h4 h5 h6 h7, of 1]
  show ?thesis by simp
qed

subsection \<open>The chat endpoint\<close>

lemmas endpoint_defs = chat_endpoint_def chat_call_nlp_def downstream_def post_json_def
  raise_for_status_def response_json_def

lemma chat_publish_no_post:
  assumes "chat_publish G ctx message = (r, fx)"
  shows "\<forall>op \<in> set fx. \<not> is_post op"
  using assms publish_sync_no_post
  by (simp add: chat_publish_def publish_to_rabbitmq_def Let_def)

lemma sample_chat_publish:
  "chat_publish (sample_gateway outcome) None message =
     (Inr (), [Connect (lit ''localhost''), OpenChannel, QueueDeclare (lit ''chat-jobs'') True,
               BasicPublish (lit []) (lit ''chat-jobs'') ''{}''
                 \<lparr>content_type = lit ''application/json'', delivery_mode = 2,
                  headers = [(lit ''traceparent'', lit ''1-1'')]\<rparr>,
               ChannelClose, ConnectionClose])"
  by (simp add: chat_publish_def sample_publish getenv_def Let_def)
     (simp add: sample_gateway_def sample_tracing_def str_int_def digits.simps lit_def)

lemma sample_classify_call: "classify_call (sample_gateway outcome) message = outcome"
  by (simp add: classify_call_def sample_gateway_def)




text \<open>
  C7 (publish failure is fatal and ordered). If the publish step raises \<open>e\<close>, the handler
  raises \<open>e\<close> itself: it issues no classify call, returns no body and raises no
  \<open>HTTPException\<close>, so the answer is neither the 200 nor the 502. In every run the effects
  of the publish step come first and contain no classify call; when the step succeeds
  the single classify call follows them.
\<close>

theorem publish_failure_fatal:
  "(\<forall>e fx. chat_publish G ctx message = (Inl e, fx) \<longrightarrow>
       chat_endpoint G ctx message = (Inl (Unhandled e), fx)
       \<and> (\<forall>op \<in> set fx. \<not> is_post op)
       \<and> reply_of (fst (chat_endpoint G ctx message)) = ServerError e)
   \<and> (\<forall>r fx. chat_publish G ctx message = (r, fx) \<longrightarrow>
         (\<forall>op \<in> set fx. \<not> is_post op)
         \<and> (\<exists>rest. snd (chat_endpoint G ctx message) = fx @ rest
               \<and> (\<forall>u. r = Inr u \<longrightarrow>
                     rest = [HttpPost (nlp_url G) (lit ''/classify'')
                               (JObj [(lit ''text'', JStr message)])])))"
proof (intro conjI allI impI)
  fix e fx assume a: "chat_publish G ctx message = (Inl e, fx)"
  then show "chat_endpoint G ctx message = (Inl (Unhandled e), fx)"
    by (simp add: chat_endpoint_def)
  from a show "\<forall>op \<in> set fx. \<not> is_post op" by (rule chat_publish_no_post)
  from a show "reply_of (fst (chat_endpoint G ctx message)) = ServerError e"
    by (simp add: chat_endpoint_def)
next
  fix r fx assume a: "chat_publish G ctx message = (r, fx)"
  then show "\<forall>op \<in> set fx. \<not> is_post op" by (rule chat_publish_no_post)
  from a show "\<exists>rest. snd (chat_endpoint G ctx message) = fx @ rest
               \<and> (\<forall>u. r = Inr u \<longrightarrow>
                     rest = [HttpPost (nlp_url G) (lit ''/classify'')
                               (JObj [(lit ''text'', JStr message)])])"
    by (cases r) (simp_all add: chat_endpoint_def chat_call_nlp_def Let_def split: sum.splits)
qed

theorem publish_failure_fatal_witness:
  "chat_endpoint
     ((sample_gateway (Inl (HTTPError TimeoutException)))\<lparr>g_broker_raises := (\<lambda>op. op = OpenChannel)\<rparr>)
     None (lit ''hello'')
     = (Inl (Unhandled AMQPError), [Connect (lit ''localhost''), OpenChannel, ConnectionClose])
   \<and> snd (chat_endpoint (sample_gateway (Inl (HTTPError TimeoutException))) None (lit ''hello''))
     = [Connect (lit ''localhost''), OpenChannel, QueueDeclare (lit ''chat-jobs'') True,
        BasicPublish (lit []) (lit ''chat-jobs'') ''{}''
          \<lparr>content_type = lit ''application/json'', delivery_mode = 2,
           headers = [(lit ''traceparent'', lit ''1-1'')]\<rparr>,
        ChannelClose, ConnectionClose,
        HttpPost (lit ''http://localhost:8001'') (lit ''/classify'')
          (JObj [(lit ''text'', JStr (lit ''hello''))])]"
proof -
  let ?G = "(sample_gateway (Inl (HTTPError TimeoutException)))\<lparr>g_broker_raises := (\<lambda>op. op = OpenChannel)\<rparr>"
  let ?H = "sample_gateway (Inl (HTTPError TimeoutException))"
  have fail: "chat_publish ?G None (lit ''hello'')
                = (Inl AMQPError, [Connect (lit ''localhost''), OpenChannel, ConnectionClose])"
    by (simp add: chat_publish_def publish_defs sample_gateway_def getenv_def Let_def)
  have url: "nlp_url ?H = lit ''http://localhost:8001''"
    by (simp add: nlp_url_def sample_gateway_def getenv_def)
  from publish_failure_fatal [of ?G None "lit ''hello''"] fail
  have one: "chat_endpoint ?G None (lit ''hello'')
     = (Inl (Unhandled AMQPError), [Connect (lit ''localhost''), OpenChannel, ConnectionClose])"
    by simp
  from publish_failure_fatal [of ?H None "lit ''hello''"]
    sample_chat_publish [of "Inl (HTTPError TimeoutException)" "lit ''hello''"] url
  have two: "snd (chat_endpoint ?H None (lit ''hello''))
     = [Connect (lit ''localhost''), OpenChannel, QueueDeclare (lit ''chat-jobs'') True,
        BasicPublish (lit []) (lit ''chat-jobs'') ''{}''
          \<lparr>content_type = lit ''application/json'', delivery_mode = 2,
           headers = [(lit ''traceparent'', lit ''1-1'')]\<rparr>,
        ChannelClose, ConnectionClose,
        HttpPost (lit ''http://localhost:8001'') (lit ''/classify'')
          (JObj [(lit ''text'', JStr (lit ''hello''))])]"
    by auto
  from one two show ?thesis by simp
qed

text \<open>
  C10 (502 only-if). The handler raises \<open>HTTPException(502, "NLP service unavailable")\<close>
  only when the publish step succeeded and the classify call raised an
  \<open>httpx.HTTPError\<close> or returned a status outside 200..299. When the call returns a 2xx
  status and the body does not decode, the \<open>JSONDecodeError\<close> leaves the handler
  uncaught.
\<close>

theorem chat_endpoint_502_only_if:
  "(fst (chat_endpoint G ctx message) = Inl (HTTPException 502 (lit ''NLP service unavailable'')) \<longrightarrow>
      (\<exists>fx. chat_publish G ctx message = (Inr (), fx))
      \<and> ((\<exists>h. classify_call G message = Inl (HTTPError h))
         \<or> (\<exists>resp. classify_call G message = Inr resp \<and> \<not> is_success (status_code resp))))
   \<and> (\<forall>fx resp. chat_publish G ctx message = (Inr (), fx) \<and> classify_call G message = Inr resp
          \<and> is_success (status_code resp) \<and> json_of resp = None \<longrightarrow>
        fst (chat_endpoint G ctx message) = Inl (Unhandled JSONDecodeError))"
  by (auto simp add: endpoint_defs Let_def
           split: prod.splits sum.splits exn.splits option.splits if_splits)

theorem chat_endpoint_502_only_if_witness:
  "(\<exists>fx. chat_publish (sample_gateway (Inl (HTTPError TransportError))) None (lit ''hello'')
            = (Inr (), fx))
   \<and> classify_call (sample_gateway (Inl (HTTPError TransportError))) (lit ''hello'')
       = Inl (HTTPError TransportError)
   \<and> fst (chat_endpoint (sample_gateway (Inr \<lparr>status_code = 200, json_of = None\<rparr>)) None (lit ''hello''))
       = Inl (Unhandled JSONDecodeError)"
proof -
  have a: "fst (chat_endpoint (sample_gateway (Inl (HTTPError TransportError))) None (lit ''hello''))
             = Inl (HTTPException 502 (lit ''NLP service unavailable''))"
    by (simp add: endpoint_defs sample_chat_publish sample_classify_call)
  from a
    chat_endpoint_502_only_if [of "sample_gateway (Inl (HTTPError TransportError))" None "lit ''hello''"]
    chat_endpoint_502_only_if
      [of "sample_gateway (Inr \<lparr>status_code = 200, json_of = None\<rparr>)" None "lit ''hello''"]
    sample_chat_publish [of "Inr \<lparr>status_code = 200, json_of = None\<rparr>" "lit ''hello''"]
  show ?thesis by (simp add: is_success_def sample_classify_call)
qed

subsection \<open>The classification endpoint\<close>

lemma sample_analyze_call:
  "post_json (analyze_call (sample_nlp (Inr \<lparr>status_code = 200, json_of = Some j\<rparr>)) text) = Inr j"
  by (simp add: analyze_call_def sample_nlp_def post_json_def raise_for_status_def
        response_json_def is_success_def)

text \<open>
  C4 (classification boundary). When the analyze call succeeds with a dictionary and
  \<open>int()\<close> of its \<open>length\<close> entry (0 when absent) is \<open>len\<close>, the endpoint returns the
  classification \<open>short\<close> if \<open>len < 20\<close> and \<open>long\<close> otherwise, together with the
  analysis; length 19 gives \<open>short\<close> and length 20 gives \<open>long\<close>.
\<close>

theorem classification_boundary:
  "(\<forall>d len. post_json (analyze_call N text) = Inr (JObj d)
        \<and> py_int (n_parse_int N) (dict_get d (lit ''length'') (JInt 0)) = Inr len \<longrightarrow>
      classify_endpoint N text
        = Inr (JObj [(lit ''classification'', JStr (if len < 20 then lit ''short'' else lit ''long'')),
                     (lit ''analysis'', JObj d)]))
   \<and> classify N (JObj [(lit ''length'', JInt 19)])
        = Inr (JObj [(lit ''classification'', JStr (lit ''short'')),
                     (lit ''analysis'', JObj [(lit ''length'', JInt 19)])])
   \<and> classify N (JObj [(lit ''length'', JInt 20)])
        = Inr (JObj [(lit ''classification'', JStr (lit ''long'')),
                     (lit ''analysis'', JObj [(lit ''length'', JInt 20)])])"
  by (simp add: classify_endpoint_def classify_def downstream_def dict_get_def)

theorem classification_boundary_witness:
  "classify_endpoint
     (sample_nlp (Inr \<lparr>status_code = 200, json_of = Some (JObj [(lit ''length'', JStr (lit ''19''))])\<rparr>))
     (lit ''hello'')
   = Inr (JObj [(lit ''classification'', JStr (lit ''short'')),
                (lit ''analysis'', JObj [(lit ''length'', JStr (lit ''19''))])])
   \<and> classify_endpoint
     (sample_nlp (Inr \<lparr>status_code = 200, json_of = Some (JObj [(lit ''length'', JInt 20)])\<rparr>))
     (lit ''hello'')
   = Inr (JObj [(lit ''classification'', JStr (lit ''long'')),
                (lit ''analysis'', JObj [(lit ''length'', JInt 20)])])"
proof -
  have parse: "n_parse_int (sample_nlp outcome) (lit ''19'') = Some 19" for outcome
    by (simp add: sample_nlp_def)
  from classification_boundary
         [of "sample_nlp (Inr \<lparr>status_code = 200,
                                json_of = Some (JObj [(lit ''length'', JStr (lit ''19''))])\<rparr>)"
             "lit ''hello''"]
       classification_boundary
         [of "sample_nlp (Inr \<lparr>status_code = 200,
                                json_of = Some (JObj [(lit ''length'', JInt 20)])\<rparr>)"
             "lit ''hello''"]
  show ?thesis by (simp add: sample_analyze_call parse dict_get_def)
qed

text \<open>
  C9 (implicit length default). Let the analyze call succeed with a dictionary. Without
  a \<open>length\<close> entry the length is 0 and the classification is \<open>short\<close>. With a \<open>length\<close>
  entry on which \<open>int()\<close> raises \<open>e\<close>, the endpoint raises \<open>e\<close> uncaught, not the 502
  \<open>Analyze service unavailable\<close>; for a string that \<open>int()\<close> cannot parse, \<open>e\<close> is
  \<open>ValueError\<close>.
\<close>

theorem length_default_and_conversion_error:
  assumes "post_json (analyze_call N text) = Inr (JObj d)"
  shows "(map_of d (lit ''length'') = None \<longrightarrow>
            classify_endpoint N text
              = Inr (JObj [(lit ''classification'', JStr (lit ''short'')), (lit ''analysis'', JObj d)]))
       \<and> (\<forall>v e. map_of d (lit ''length'') = Some v \<and> py_int (n_parse_int N) v = Inl e \<longrightarrow>
            classify_endpoint N text = Inl (Unhandled e)
            \<and> classify_endpoint N text \<noteq> Inl (HTTPException 502 (lit ''Analyze service unavailable'')))
       \<and> (\<forall>s. map_of d (lit ''length'') = Some (JStr s) \<and> n_parse_int N s = None \<longrightarrow>
            classify_endpoint N text = Inl (Unhandled ValueError))"
  using assms by (simp add: classify_endpoint_def classify_def downstream_def dict_get_def)

theorem length_default_and_conversion_error_witness:
  "classify_endpoint (sample_nlp (Inr \<lparr>status_code = 200, json_of = Some (JObj [])\<rparr>)) (lit ''hello'')
     = Inr (JObj [(lit ''classification'', JStr (lit ''short'')), (lit ''analysis'', JObj [])])
   \<and> classify_endpoint
       (sample_nlp (Inr \<lparr>status_code = 200, json_of = Some (JObj [(lit ''length'', JStr (lit ''abc''))])\<rparr>))
       (lit ''hello'')
     = Inl (Unhandled ValueError)
   \<and> classify_endpoint
       (sample_nlp (Inr \<lparr>status_code = 200, json_of = Some (JObj [(lit ''length'', JNull)])\<rparr>))
       (lit ''hello'')
     = Inl (Unhandled TypeError)"
proof -
  have parse: "n_parse_int (sample_nlp outcome) (lit ''abc'') = None" for outcome
    by (simp add: sample_nlp_def)
  from length_default_and_conversion_error [OF sample_analyze_call [of "JObj []"]]
       length_default_and_conversion_error
         [OF sample_analyze_call [of "JObj [(lit ''length'', JStr (lit ''abc''))]"]]
       length_default_and_conversion_error [OF sample_analyze_call [of "JObj [(lit ''length'', JNull)]"]]
  show ?thesis by (simp add: parse)
qed

end
